theory Spec2Isabelle
  imports Complex_Main
begin

section \<open>Python values\<close>

text \<open>
  The converter of \<^verbatim>\<open>rasa_whatsapp_connector/whatsapp.py\<close> works on untyped
  Python data: the hook data is whatever a JSON body parses to, a button is a
  \<^verbatim>\<open>Dict[str, Any]\<close>, and the messages it builds are nested dicts.

  A Python \<^verbatim>\<open>str\<close> is a sequence of Unicode code points, and slicing counts code
  points, so a string is a list of code points here. A literal of the source is written
  \<open>lit ''...''\<close>.

  A dict is an association list in insertion order, read with \<^const>\<open>map_of\<close>: the
  first binding of a key is the one the dict holds. A float is carried by its value; the
  code never computes with one.
\<close>

type_synonym codepoint = nat
type_synonym pystr = "codepoint list"

definition lit :: "string \<Rightarrow> pystr" where
  "lit s = map of_char s"

datatype pyval =
    PNone
  | PBool bool
  | PInt int
  | PFloat real
  | PStr pystr
  | PList "pyval list"
  | PDict "(pystr \<times> pyval) list"

type_synonym pydict = "(pystr \<times> pyval) list"

text \<open>The exceptions the code can raise; \<open>ValueError\<close> carries its message.\<close>

datatype py_error =
    ValueError string
  | KeyError
  | TypeError
  | IndexError

type_synonym 'a result = "py_error + 'a"

text \<open>Sequencing: the first exception raised ends the computation.\<close>

definition py_bind :: "'a result \<Rightarrow> ('a \<Rightarrow> 'b result) \<Rightarrow> 'b result" where
  "py_bind r f = (case r of Inl e \<Rightarrow> Inl e | Inr v \<Rightarrow> f v)"

subsection \<open>The operators the code applies\<close>

text \<open>\<^verbatim>\<open>needle in hay\<close> for two strings: \<open>needle\<close> occurs as a contiguous run.\<close>

fun is_substr :: "'a list \<Rightarrow> 'a list \<Rightarrow> bool" where
  "is_substr xs [] = (xs = [])"
| "is_substr xs (y # ys) = (take (length xs) (y # ys) = xs \<or> is_substr xs ys)"

text \<open>
  \<^verbatim>\<open>k in v\<close> for a string \<open>k\<close>: key membership in a dict, element membership in a
  list, substring test in a string, and \<^verbatim>\<open>TypeError\<close> for a value that is not
  iterable.
\<close>

fun py_contains :: "pystr \<Rightarrow> pyval \<Rightarrow> bool result" where
  "py_contains k (PDict kvs) = Inr (map_of kvs k \<noteq> None)"
| "py_contains k (PList xs) = Inr (PStr k \<in> set xs)"
| "py_contains k (PStr s) = Inr (is_substr k s)"
| "py_contains k _ = Inl TypeError"

text \<open>\<^verbatim>\<open>len(v)\<close>; a dict counts its keys.\<close>

fun py_len :: "pyval \<Rightarrow> nat result" where
  "py_len (PDict kvs) = Inr (length (remdups (map fst kvs)))"
| "py_len (PList xs) = Inr (length xs)"
| "py_len (PStr s) = Inr (length s)"
| "py_len _ = Inl TypeError"

text \<open>
  \<^verbatim>\<open>v[k]\<close> for a string \<open>k\<close>: a dict looks the key up and raises
  \<^verbatim>\<open>KeyError\<close> when it is missing; a list or a string takes integer indices only
  and every other value is not subscriptable, both \<^verbatim>\<open>TypeError\<close>.
\<close>

fun py_getitem :: "pyval \<Rightarrow> pystr \<Rightarrow> pyval result" where
  "py_getitem (PDict kvs) k = (case map_of kvs k of None \<Rightarrow> Inl KeyError | Some v \<Rightarrow> Inr v)"
| "py_getitem _ k = Inl TypeError"

text \<open>
  \<^verbatim>\<open>v[i]\<close> for an integer \<open>i\<close>: a negative index counts from the end and an index
  out of range raises \<^verbatim>\<open>IndexError\<close>. A string yields a string of one code point.
  The keys of a dict are strings here, so an integer is never among them.
\<close>

definition seq_index :: "'a list \<Rightarrow> int \<Rightarrow> 'a result" where
  "seq_index xs i =
     (if 0 \<le> i \<and> i < int (length xs) then Inr (xs ! nat i)
      else if i < 0 \<and> - int (length xs) \<le> i then Inr (xs ! nat (int (length xs) + i))
      else Inl IndexError)"

fun py_index :: "pyval \<Rightarrow> int \<Rightarrow> pyval result" where
  "py_index (PList xs) i = seq_index xs i"
| "py_index (PStr s) i = py_bind (seq_index s i) (\<lambda>c. Inr (PStr [c]))"
| "py_index (PDict kvs) i = Inl KeyError"
| "py_index _ i = Inl TypeError"

text \<open>
  \<^verbatim>\<open>v[0:n]\<close>: the first \<open>n\<close> items of a string or a list. Any other value raises;
  for a dict the exception is \<^verbatim>\<open>TypeError\<close> up to Python 3.11 (a slice is
  unhashable) and \<^verbatim>\<open>KeyError\<close> from 3.12 on, and nothing below depends on which.
\<close>

fun py_slice_to :: "nat \<Rightarrow> pyval \<Rightarrow> pyval result" where
  "py_slice_to n (PStr s) = Inr (PStr (take n s))"
| "py_slice_to n (PList xs) = Inr (PList (take n xs))"
| "py_slice_to n _ = Inl TypeError"

section \<open>The converter\<close>

text \<open>The fields \<^verbatim>\<open>__init__\<close> stores.\<close>

record converter =
  phone_identifier :: pystr
  token :: pystr
  graphql_api_version :: pystr
  api_timeout :: int

definition DEFAULT_WHATSAPP_API_TIMEOUT :: int where
  "DEFAULT_WHATSAPP_API_TIMEOUT = 10"

definition init_converter :: "pystr \<Rightarrow> pystr \<Rightarrow> converter" where
  "init_converter phone tok =
     \<lparr>phone_identifier = phone, token = tok, graphql_api_version = lit ''v18.0'',
      api_timeout = DEFAULT_WHATSAPP_API_TIMEOUT\<rparr>"

subsection \<open>Outbound messages\<close>

text \<open>
  The loop of \<^verbatim>\<open>_prepare_button_message\<close> over \<^verbatim>\<open>buttons[:3]\<close>, with
  \<^verbatim>\<open>whatsapp_buttons\<close> as accumulator. The title is read and cut first, the
  payload second.
\<close>

fun button_loop :: "pydict list \<Rightarrow> pyval list \<Rightarrow> pyval list result" where
  "button_loop [] whatsapp_buttons = Inr whatsapp_buttons"
| "button_loop (button # rest) whatsapp_buttons =
     py_bind (py_getitem (PDict button) (lit ''title'')) (\<lambda>t.
     py_bind (py_slice_to 20 t) (\<lambda>title.
     py_bind (py_getitem (PDict button) (lit ''payload'')) (\<lambda>whatsapp_id.
       button_loop rest
         (whatsapp_buttons @
           [PDict [(lit ''type'', PStr (lit ''reply'')),
                   (lit ''reply'', PDict [(lit ''id'', whatsapp_id), (lit ''title'', title)])]]))))"

definition prepare_button_message ::
  "converter \<Rightarrow> pystr \<Rightarrow> pystr \<Rightarrow> pydict list \<Rightarrow> pyval result" where
  "prepare_button_message self to text buttons =
     py_bind (button_loop (take 3 buttons) []) (\<lambda>whatsapp_buttons.
       Inr (PDict
         [(lit ''messaging_product'', PStr (lit ''whatsapp'')),
          (lit ''to'', PStr to),
          (lit ''type'', PStr (lit ''interactive'')),
          (lit ''interactive'', PDict
             [(lit ''type'', PStr (lit ''button'')),
              (lit ''body'', PDict [(lit ''text'', PStr text)]),
              (lit ''action'', PDict [(lit ''buttons'', PList whatsapp_buttons)])])]))"

text \<open>The loop of \<^verbatim>\<open>_prepare_list_message\<close> over \<^verbatim>\<open>buttons[:10]\<close>.\<close>

fun list_loop :: "pydict list \<Rightarrow> pyval list \<Rightarrow> pyval list result" where
  "list_loop [] whatsapp_list = Inr whatsapp_list"
| "list_loop (button # rest) whatsapp_list =
     py_bind (py_getitem (PDict button) (lit ''title'')) (\<lambda>t.
     py_bind (py_slice_to 24 t) (\<lambda>title.
     py_bind (py_getitem (PDict button) (lit ''payload'')) (\<lambda>whatsapp_id.
       list_loop rest
         (whatsapp_list @ [PDict [(lit ''id'', whatsapp_id), (lit ''title'', title)]]))))"

definition prepare_list_message ::
  "converter \<Rightarrow> pystr \<Rightarrow> pystr \<Rightarrow> pydict list \<Rightarrow> pystr \<Rightarrow> pyval result" where
  "prepare_list_message self to text buttons list_name =
     py_bind (list_loop (take 10 buttons) []) (\<lambda>whatsapp_list.
       Inr (PDict
         [(lit ''messaging_product'', PStr (lit ''whatsapp'')),
          (lit ''to'', PStr to),
          (lit ''type'', PStr (lit ''interactive'')),
          (lit ''interactive'', PDict
             [(lit ''type'', PStr (lit ''list'')),
              (lit ''body'', PDict [(lit ''text'', PStr text)]),
              (lit ''action'', PDict
                 [(lit ''button'', PStr list_name),
                  (lit ''sections'', PList
                     [PDict [(lit ''title'', PStr list_name),
                             (lit ''rows'', PList whatsapp_list)]])])])]))"

definition prepare_text_message :: "converter \<Rightarrow> pystr \<Rightarrow> pystr \<Rightarrow> pyval" where
  "prepare_text_message self to text =
     PDict
       [(lit ''messaging_product'', PStr (lit ''whatsapp'')),
        (lit ''to'', PStr to),
        (lit ''text'', PDict [(lit ''body'', PStr text)])]"

text \<open>
  \<^verbatim>\<open>prepare_message\<close>: \<open>None\<close> is the absent \<^verbatim>\<open>buttons\<close> argument. The list
  message is built with the default \<^verbatim>\<open>list_name="Select"\<close>.
\<close>

definition prepare_message ::
  "converter \<Rightarrow> pystr \<Rightarrow> pystr \<Rightarrow> pydict list option \<Rightarrow> pyval result" where
  "prepare_message self to text buttons =
     (case buttons of
        Some bs \<Rightarrow>
          if length bs \<le> 3 then prepare_button_message self to text bs
          else prepare_list_message self to text bs (lit ''Select'')
      | None \<Rightarrow> Inr (prepare_text_message self to text))"

subsection \<open>Inbound hook data\<close>

text \<open>
  The test \<^verbatim>\<open>k not in d or len(d[k]) == 0\<close>, which the source writes for
  \<^verbatim>\<open>entry\<close>, \<^verbatim>\<open>changes\<close> and \<^verbatim>\<open>messages\<close>. The right operand of
  \<^verbatim>\<open>or\<close> is evaluated only when the left one is false.
\<close>

definition missing_or_empty :: "pystr \<Rightarrow> pyval \<Rightarrow> bool result" where
  "missing_or_empty k d =
     py_bind (py_contains k d) (\<lambda>present.
       if \<not> present then Inr True
       else py_bind (py_getitem d k) (\<lambda>v.
            py_bind (py_len v) (\<lambda>n. Inr (n = 0))))"

definition get_value :: "converter \<Rightarrow> pyval \<Rightarrow> pyval result" where
  "get_value self data =
     py_bind (missing_or_empty (lit ''entry'') data) (\<lambda>bad.
     if bad then Inl (ValueError ''Provided data is invalid!'') else
     py_bind (py_getitem data (lit ''entry'')) (\<lambda>entries.
     py_bind (py_index entries 0) (\<lambda>entry.
     py_bind (missing_or_empty (lit ''changes'') entry) (\<lambda>bad.
     if bad then Inl (ValueError ''Provided data is invalid!'') else
     py_bind (py_getitem entry (lit ''changes'')) (\<lambda>changes.
     py_bind (py_index changes 0) (\<lambda>change.
     py_bind (py_contains (lit ''value'') change) (\<lambda>present.
     if \<not> present then Inl (ValueError ''Provided data is invalid!'') else
     py_getitem change (lit ''value''))))))))"

text \<open>
  The condition \<^verbatim>\<open>message["type"] == "interactive" and
  message['interactive']['type'] == kind\<close> of the two \<^verbatim>\<open>elif\<close> branches;
  \<^verbatim>\<open>and\<close> evaluates its right operand only when the left one is true.
\<close>

definition is_interactive :: "pyval \<Rightarrow> pystr \<Rightarrow> bool result" where
  "is_interactive message kind =
     py_bind (py_getitem message (lit ''type'')) (\<lambda>t.
       if t \<noteq> PStr (lit ''interactive'') then Inr False
       else py_bind (py_getitem message (lit ''interactive'')) (\<lambda>i.
            py_bind (py_getitem i (lit ''type'')) (\<lambda>it. Inr (it = PStr kind))))"

text \<open>
  The body of the \<^verbatim>\<open>try\<close> block: it yields \<^verbatim>\<open>sender_id\<close> and
  \<^verbatim>\<open>text\<close>, the latter still \<^verbatim>\<open>None\<close> when no branch assigned it.
\<close>

definition hook_try_body :: "pyval \<Rightarrow> (pyval \<times> pyval) result" where
  "hook_try_body message =
     py_bind (py_getitem message (lit ''from'')) (\<lambda>sender_id.
     py_bind (py_getitem message (lit ''type'')) (\<lambda>t.
     if t = PStr (lit ''text'') then
       py_bind (py_getitem message (lit ''text'')) (\<lambda>tx.
       py_bind (py_getitem tx (lit ''body'')) (\<lambda>text. Inr (sender_id, text)))
     else
       py_bind (is_interactive message (lit ''button_reply'')) (\<lambda>is_button.
       if is_button then
         py_bind (py_getitem message (lit ''interactive'')) (\<lambda>i.
         py_bind (py_getitem i (lit ''button_reply'')) (\<lambda>reply.
         py_bind (py_getitem reply (lit ''id'')) (\<lambda>text. Inr (sender_id, text))))
       else
         py_bind (is_interactive message (lit ''list_reply'')) (\<lambda>is_list.
         if is_list then
           py_bind (py_getitem message (lit ''interactive'')) (\<lambda>i.
           py_bind (py_getitem i (lit ''list_reply'')) (\<lambda>reply.
           py_bind (py_getitem reply (lit ''id'')) (\<lambda>text. Inr (sender_id, text))))
         else Inr (sender_id, PNone)))))"

text \<open>\<^verbatim>\<open>except KeyError as exc: raise ValueError(...) from exc\<close>; nothing else is caught.\<close>

definition except_KeyError :: "'a result \<Rightarrow> 'a result" where
  "except_KeyError r =
     (case r of
        Inl KeyError \<Rightarrow> Inl (ValueError ''Provided data is invalid!'')
      | _ \<Rightarrow> r)"

definition get_message_from_whatsapp_hook :: "converter \<Rightarrow> pyval \<Rightarrow> pyval result" where
  "get_message_from_whatsapp_hook self data =
     py_bind (get_value self data) (\<lambda>value.
     py_bind (missing_or_empty (lit ''messages'') value) (\<lambda>bad.
     if bad then Inl (ValueError ''Provided value is invalid'') else
     py_bind (py_getitem value (lit ''messages'')) (\<lambda>messages.
     py_bind (py_index messages 0) (\<lambda>message.
     py_bind (except_KeyError (hook_try_body message)) (\<lambda>(sender_id, text).
     if text = PNone then Inl (ValueError ''Provided data is invalid!'')
     else Inr (PDict [(lit ''sender_id'', sender_id),
                      (lit ''text'', text),
                      (lit ''metadata'', PDict [])]))))))"

subsection \<open>Data for the examples\<close>

definition example_converter :: converter where
  "example_converter = init_converter (lit ''/100200300'') (lit ''secret'')"

text \<open>
  Hook data with one entry, one change and the given list of messages, built from the
  inside out: the fields of the value, of the change, of the entry and of the data.
\<close>

definition hook_value_fields :: "pyval list \<Rightarrow> pydict" where
  "hook_value_fields msgs =
     [(lit ''messaging_product'', PStr (lit ''whatsapp'')), (lit ''messages'', PList msgs)]"

definition hook_change_fields :: "pyval list \<Rightarrow> pydict" where
  "hook_change_fields msgs =
     [(lit ''field'', PStr (lit ''messages'')), (lit ''value'', PDict (hook_value_fields msgs))]"

definition hook_entry_fields :: "pyval list \<Rightarrow> pydict" where
  "hook_entry_fields msgs =
     [(lit ''id'', PStr (lit ''1'')), (lit ''changes'', PList [PDict (hook_change_fields msgs)])]"

definition hook_data_fields :: "pyval list \<Rightarrow> pydict" where
  "hook_data_fields msgs =
     [(lit ''object'', PStr (lit ''whatsapp_business_account'')),
      (lit ''entry'', PList [PDict (hook_entry_fields msgs)])]"

definition hook_data :: "pyval list \<Rightarrow> pyval" where
  "hook_data msgs = PDict (hook_data_fields msgs)"

text \<open>A button as the bot writes it, and a menu of eleven, the last without a title.\<close>

definition menu_button :: "string \<Rightarrow> string \<Rightarrow> pydict" where
  "menu_button title payload = [(lit ''title'', PStr (lit title)), (lit ''payload'', PStr (lit payload))]"

definition example_menu :: "pydict list" where
  "example_menu =
     [menu_button ''Check my account balance today'' ''/balance'',
      menu_button ''Transfers'' ''/transfer'',
      menu_button ''Cards'' ''/cards'',
      menu_button ''Loans'' ''/loans'',
      menu_button ''Branches'' ''/branches'',
      menu_button ''Opening hours'' ''/hours'',
      menu_button ''Exchange rates'' ''/rates'',
      menu_button ''Report a problem'' ''/report'',
      menu_button ''Speak with a human agent now'' ''/human'',
      menu_button ''Goodbye'' ''/bye'',
      [(lit ''payload'', PStr (lit ''/eleventh''))]]"

section \<open>Basic facts\<close>

lemma lit_eq_iff [simp]: "lit s = lit t \<longleftrightarrow> s = t"
  unfolding lit_def using inj_of_char [where ?'a = nat]
  by (simp add: inj_map_eq_map)

lemma take_lit [simp]: "take n (lit s) = lit (take n s)"
  by (simp add: lit_def take_map)

lemma py_bind_Inr [simp]: "py_bind (Inr v) f = f v"
  by (simp add: py_bind_def)

lemma py_bind_Inl [simp]: "py_bind (Inl e) f = Inl e"
  by (simp add: py_bind_def)

section \<open>The two loops\<close>

text \<open>
  When every button holds a string under \<^verbatim>\<open>title\<close> and some value under
  \<^verbatim>\<open>payload\<close>, a loop appends one entry per button, in order. \<open>parts\<close> lists
  the title and the payload of each button.
\<close>

lemma button_loop_parts:
  assumes "list_all2 (\<lambda>button (title, payload).
             map_of button (lit ''title'') = Some (PStr title)
           \<and> map_of button (lit ''payload'') = Some payload) buttons parts"
  shows "button_loop buttons acc =
           Inr (acc @ map (\<lambda>(title, payload).
                  PDict [(lit ''type'', PStr (lit ''reply'')),
                         (lit ''reply'', PDict [(lit ''id'', payload),
                                                (lit ''title'', PStr (take 20 title))])]) parts)"
  using assms
proof (induction buttons parts arbitrary: acc rule: list_all2_induct)
  case Nil
  show ?case by simp
next
  case (Cons button buttons part parts)
  obtain title payload where f: "part = (title, payload)" by (cases part)
  from Cons.hyps(1) f have "map_of button (lit ''title'') = Some (PStr title)"
    and "map_of button (lit ''payload'') = Some payload" by simp_all
  then show ?case using Cons.IH f by simp
qed

lemma list_loop_parts:
  assumes "list_all2 (\<lambda>button (title, payload).
             map_of button (lit ''title'') = Some (PStr title)
           \<and> map_of button (lit ''payload'') = Some payload) buttons parts"
  shows "list_loop buttons acc =
           Inr (acc @ map (\<lambda>(title, payload).
                  PDict [(lit ''id'', payload), (lit ''title'', PStr (take 24 title))]) parts)"
  using assms
proof (induction buttons parts arbitrary: acc rule: list_all2_induct)
  case Nil
  show ?case by simp
next
  case (Cons button buttons part parts)
  obtain title payload where f: "part = (title, payload)" by (cases part)
  from Cons.hyps(1) f have "map_of button (lit ''title'') = Some (PStr title)"
    and "map_of button (lit ''payload'') = Some payload" by simp_all
  then show ?case using Cons.IH f by simp
qed




section \<open>Outbound claims\<close>

text \<open>
  C1. For every recipient, text and list of at most three buttons, each holding a string
  title and a payload, \<open>prepare_message\<close> returns the button message: type
  \<^verbatim>\<open>interactive\<close>, interactive type \<^verbatim>\<open>button\<close>, the text as body, and one
  reply entry per button, in order, with the payload as id and the first 20 characters of
  the title as title.
\<close>

theorem prepare_message_buttons:
  assumes "length buttons \<le> 3"
    and "list_all2 (\<lambda>button (title, payload).
             map_of button (lit ''title'') = Some (PStr title)
           \<and> map_of button (lit ''payload'') = Some payload) buttons parts"
  shows "prepare_message self to text (Some buttons) =
     Inr (PDict
       [(lit ''messaging_product'', PStr (lit ''whatsapp'')),
        (lit ''to'', PStr to),
        (lit ''type'', PStr (lit ''interactive'')),
        (lit ''interactive'', PDict
           [(lit ''type'', PStr (lit ''button'')),
            (lit ''body'', PDict [(lit ''text'', PStr text)]),
            (lit ''action'', PDict
               [(lit ''buttons'', PList (map (\<lambda>(title, payload).
                   PDict [(lit ''type'', PStr (lit ''reply'')),
                          (lit ''reply'', PDict [(lit ''id'', payload),
                                                 (lit ''title'', PStr (take 20 title))])])
                   parts))])])])
   \<and> length parts = length buttons"
proof -
  from assms(1) have "take 3 buttons = buttons" by simp
  moreover from assms(2) have "length parts = length buttons"
    by (simp add: list_all2_lengthD)
  ultimately show ?thesis
    using assms(1) button_loop_parts [OF assms(2), of "[]"]
    by (simp add: prepare_message_def prepare_button_message_def)
qed

theorem prepare_message_buttons_witness:
  "length [[(lit ''title'', PStr (lit ''Speak with a human agent'')),
            (lit ''payload'', PStr (lit ''/human''))],
           [(lit ''payload'', PStr (lit ''/no'')), (lit ''title'', PStr (lit ''No'')),
            (lit ''type'', PStr (lit ''postback''))]] \<le> (3::nat)
   \<and> list_all2 (\<lambda>button (title, payload).
             map_of button (lit ''title'') = Some (PStr title)
           \<and> map_of button (lit ''payload'') = Some payload)
        [[(lit ''title'', PStr (lit ''Speak with a human agent'')),
          (lit ''payload'', PStr (lit ''/human''))],
         [(lit ''payload'', PStr (lit ''/no'')), (lit ''title'', PStr (lit ''No'')),
          (lit ''type'', PStr (lit ''postback''))]]
        [(lit ''Speak with a human agent'', PStr (lit ''/human'')),
         (lit ''No'', PStr (lit ''/no''))]
   \<and> prepare_message example_converter (lit ''595981000000'') (lit ''How can I help?'')
        (Some [[(lit ''title'', PStr (lit ''Speak with a human agent'')),
                (lit ''payload'', PStr (lit ''/human''))],
               [(lit ''payload'', PStr (lit ''/no'')), (lit ''title'', PStr (lit ''No'')),
                (lit ''type'', PStr (lit ''postback''))]]) =
     Inr (PDict
       [(lit ''messaging_product'', PStr (lit ''whatsapp'')),
        (lit ''to'', PStr (lit ''595981000000'')),
        (lit ''type'', PStr (lit ''interactive'')),
        (lit ''interactive'', PDict
           [(lit ''type'', PStr (lit ''button'')),
            (lit ''body'', PDict [(lit ''text'', PStr (lit ''How can I help?''))]),
            (lit ''action'', PDict
               [(lit ''buttons'', PList
                  [PDict [(lit ''type'', PStr (lit ''reply'')),
                          (lit ''reply'', PDict [(lit ''id'', PStr (lit ''/human'')),
                                                 (lit ''title'', PStr (lit ''Speak with a human a''))])],
                   PDict [(lit ''type'', PStr (lit ''reply'')),
                          (lit ''reply'', PDict [(lit ''id'', PStr (lit ''/no'')),
                                                 (lit ''title'', PStr (lit ''No''))])]])])])])"
proof -
  let ?bs = "[[(lit ''title'', PStr (lit ''Speak with a human agent'')),
            (lit ''payload'', PStr (lit ''/human''))],
           [(lit ''payload'', PStr (lit ''/no'')), (lit ''title'', PStr (lit ''No'')),
            (lit ''type'', PStr (lit ''postback''))]]"
  let ?parts = "[(lit ''Speak with a human agent'', PStr (lit ''/human'')),
         (lit ''No'', PStr (lit ''/no''))]"
  have h1: "length ?bs \<le> 3" by simp
  have h2: "list_all2 (\<lambda>button (title, payload).
             map_of button (lit ''title'') = Some (PStr title)
           \<and> map_of button (lit ''payload'') = Some payload) ?bs ?parts" by simp
  show ?thesis
    using h1 h2
      prepare_message_buttons [OF h1 h2, of example_converter "lit ''595981000000''"
        "lit ''How can I help?''"]
    by simp
qed

text \<open>
  C2. For every recipient, text and list of more than three buttons, whose first ten each
  hold a string title and a payload, \<open>prepare_message\<close> returns the list message:
  interactive type \<^verbatim>\<open>list\<close>, the text as body, \<^verbatim>\<open>Select\<close> as action button,
  and one section titled \<^verbatim>\<open>Select\<close> whose rows are the first
  \<open>min (length buttons) 10\<close> buttons in order, each with the payload as id and the first
  24 characters of the title as title. Later buttons are dropped, whatever they hold.
\<close>

theorem prepare_message_list:
  assumes "3 < length buttons"
    and "list_all2 (\<lambda>button (title, payload).
             map_of button (lit ''title'') = Some (PStr title)
           \<and> map_of button (lit ''payload'') = Some payload) (take 10 buttons) parts"
  shows "prepare_message self to text (Some buttons) =
     Inr (PDict
       [(lit ''messaging_product'', PStr (lit ''whatsapp'')),
        (lit ''to'', PStr to),
        (lit ''type'', PStr (lit ''interactive'')),
        (lit ''interactive'', PDict
           [(lit ''type'', PStr (lit ''list'')),
            (lit ''body'', PDict [(lit ''text'', PStr text)]),
            (lit ''action'', PDict
               [(lit ''button'', PStr (lit ''Select'')),
                (lit ''sections'', PList
                   [PDict [(lit ''title'', PStr (lit ''Select'')),
                           (lit ''rows'', PList (map (\<lambda>(title, payload).
                              PDict [(lit ''id'', payload),
                                     (lit ''title'', PStr (take 24 title))]) parts))]])])])])
   \<and> length parts = min (length buttons) 10"
proof -
  from assms(2) have "length parts = min (length buttons) 10"
    using list_all2_lengthD by fastforce
  then show ?thesis
    using assms(1) list_loop_parts [OF assms(2), of "[]"]
    by (simp add: prepare_message_def prepare_list_message_def)
qed

theorem prepare_message_list_witness:
  "3 < length example_menu
   \<and> list_all2 (\<lambda>button (title, payload).
             map_of button (lit ''title'') = Some (PStr title)
           \<and> map_of button (lit ''payload'') = Some payload) (take 10 example_menu)
        [(lit ''Check my account balance today'', PStr (lit ''/balance'')),
         (lit ''Transfers'', PStr (lit ''/transfer'')),
         (lit ''Cards'', PStr (lit ''/cards'')),
         (lit ''Loans'', PStr (lit ''/loans'')),
         (lit ''Branches'', PStr (lit ''/branches'')),
         (lit ''Opening hours'', PStr (lit ''/hours'')),
         (lit ''Exchange rates'', PStr (lit ''/rates'')),
         (lit ''Report a problem'', PStr (lit ''/report'')),
         (lit ''Speak with a human agent now'', PStr (lit ''/human'')),
         (lit ''Goodbye'', PStr (lit ''/bye''))]
   \<and> prepare_message example_converter (lit ''595981000000'') (lit ''Main menu'')
        (Some example_menu) =
     Inr (PDict
       [(lit ''messaging_product'', PStr (lit ''whatsapp'')),
        (lit ''to'', PStr (lit ''595981000000'')),
        (lit ''type'', PStr (lit ''interactive'')),
        (lit ''interactive'', PDict
           [(lit ''type'', PStr (lit ''list'')),
            (lit ''body'', PDict [(lit ''text'', PStr (lit ''Main menu''))]),
            (lit ''action'', PDict
               [(lit ''button'', PStr (lit ''Select'')),
                (lit ''sections'', PList
                   [PDict [(lit ''title'', PStr (lit ''Select'')),
                           (lit ''rows'', PList
                     [PDict [(lit ''id'', PStr (lit ''/balance'')),
                             (lit ''title'', PStr (lit ''Check my account balance''))],
                      PDict [(lit ''id'', PStr (lit ''/transfer'')),
                             (lit ''title'', PStr (lit ''Transfers''))],
                      PDict [(lit ''id'', PStr (lit ''/cards'')),
                             (lit ''title'', PStr (lit ''Cards''))],
                      PDict [(lit ''id'', PStr (lit ''/loans'')),
                             (lit ''title'', PStr (lit ''Loans''))],
                      PDict [(lit ''id'', PStr (lit ''/branches'')),
                             (lit ''title'', PStr (lit ''Branches''))],
                      PDict [(lit ''id'', PStr (lit ''/hours'')),
                             (lit ''title'', PStr (lit ''Opening hours''))],
                      PDict [(lit ''id'', PStr (lit ''/rates'')),
                             (lit ''title'', PStr (lit ''Exchange rates''))],
                      PDict [(lit ''id'', PStr (lit ''/report'')),
                             (lit ''title'', PStr (lit ''Report a problem''))],
                      PDict [(lit ''id'', PStr (lit ''/human'')),
                             (lit ''title'', PStr (lit ''Speak with a human agent''))],
                      PDict [(lit ''id'', PStr (lit ''/bye'')),
                             (lit ''title'', PStr (lit ''Goodbye''))]])]])])])])"
proof -
  let ?parts = "[(lit ''Check my account balance today'', PStr (lit ''/balance'')),
         (lit ''Transfers'', PStr (lit ''/transfer'')),
         (lit ''Cards'', PStr (lit ''/cards'')),
         (lit ''Loans'', PStr (lit ''/loans'')),
         (lit ''Branches'', PStr (lit ''/branches'')),
         (lit ''Opening hours'', PStr (lit ''/hours'')),
         (lit ''Exchange rates'', PStr (lit ''/rates'')),
         (lit ''Report a problem'', PStr (lit ''/report'')),
         (lit ''Speak with a human agent now'', PStr (lit ''/human'')),
         (lit ''Goodbye'', PStr (lit ''/bye''))]"
  have h1: "3 < length example_menu"
    by (simp add: example_menu_def)
  have h2: "list_all2 (\<lambda>button (title, payload).
             map_of button (lit ''title'') = Some (PStr title)
           \<and> map_of button (lit ''payload'') = Some payload) (take 10 example_menu) ?parts"
    by (simp add: example_menu_def menu_button_def)
  show ?thesis
    using h1 h2
      prepare_message_list [OF h1 h2, of example_converter "lit ''595981000000''"
        "lit ''Main menu''"]
    by simp
qed

text \<open>
  C3. With the buttons argument absent, \<open>prepare_message\<close> returns exactly the dict
  \<^verbatim>\<open>{messaging_product: "whatsapp", to: recipient, text: {body: text}}\<close>: the body
  is the text itself, uncut, and the message has neither a \<^verbatim>\<open>type\<close> nor an
  \<^verbatim>\<open>interactive\<close> key.
\<close>

theorem prepare_message_no_buttons:
  "prepare_message self to text None =
     Inr (PDict [(lit ''messaging_product'', PStr (lit ''whatsapp'')),
                 (lit ''to'', PStr to),
                 (lit ''text'', PDict [(lit ''body'', PStr text)])])
   \<and> py_bind (prepare_message self to text None) (py_contains (lit ''interactive'')) = Inr False
   \<and> py_bind (prepare_message self to text None) (py_contains (lit ''type'')) = Inr False
   \<and> py_bind (prepare_message self to text None)
        (\<lambda>m. py_bind (py_getitem m (lit ''text'')) (\<lambda>t. py_getitem t (lit ''body''))) = Inr (PStr text)"
  by (simp add: prepare_message_def prepare_text_message_def)

text \<open>
  C7. An empty list of buttons, present but of length 0, gives the button message with no
  reply entries, which is not the plain text message that the absent argument gives.
\<close>

theorem prepare_message_empty_buttons:
  "prepare_message self to text (Some []) =
     Inr (PDict
       [(lit ''messaging_product'', PStr (lit ''whatsapp'')),
        (lit ''to'', PStr to),
        (lit ''type'', PStr (lit ''interactive'')),
        (lit ''interactive'', PDict
           [(lit ''type'', PStr (lit ''button'')),
            (lit ''body'', PDict [(lit ''text'', PStr text)]),
            (lit ''action'', PDict [(lit ''buttons'', PList [])])])])
   \<and> prepare_message self to text (Some []) \<noteq> prepare_message self to text None"
  by (simp add: prepare_message_def prepare_button_message_def prepare_text_message_def)




section \<open>The path to the first message\<close>

text \<open>
  Below, the hook data is a dict with fields \<open>d\<close>; \<open>e\<close>, \<open>c\<close> and \<open>v\<close> are the
  fields of \<^verbatim>\<open>entry[0]\<close>, of \<^verbatim>\<open>changes[0]\<close> and of \<^verbatim>\<open>value\<close>, and
  \<open>m\<close> is \<^verbatim>\<open>messages[0]\<close>; \<open>es\<close>, \<open>cs\<close> and \<open>ms\<close> are the later items of
  the three lists.
\<close>

lemmas hook_data_defs =
  hook_data_def hook_data_fields_def hook_entry_fields_def hook_change_fields_def
  hook_value_fields_def

lemma seq_index_first [simp]: "seq_index (x # xs) 0 = Inr x"
  by (simp add: seq_index_def)

lemma missing_or_empty_absent [simp]:
  "map_of d k = None \<Longrightarrow> missing_or_empty k (PDict d) = Inr True"
  by (simp add: missing_or_empty_def)

lemma missing_or_empty_present [simp]:
  "map_of d k = Some x \<Longrightarrow> missing_or_empty k (PDict d) = py_bind (py_len x) (\<lambda>n. Inr (n = 0))"
  by (simp add: missing_or_empty_def)

lemma get_value_path:
  assumes "map_of d (lit ''entry'') = Some (PList (PDict e # es))"
    and "map_of e (lit ''changes'') = Some (PList (PDict c # cs))"
    and "map_of c (lit ''value'') = Some v"
  shows "get_value self (PDict d) = Inr v"
  using assms by (simp add: get_value_def)

lemma hook_first_message:
  assumes "map_of d (lit ''entry'') = Some (PList (PDict e # es))"
    and "map_of e (lit ''changes'') = Some (PList (PDict c # cs))"
    and "map_of c (lit ''value'') = Some (PDict v)"
    and "map_of v (lit ''messages'') = Some (PList (m # ms))"
  shows "get_message_from_whatsapp_hook self (PDict d) =
           py_bind (except_KeyError (hook_try_body m)) (\<lambda>(sender_id, text).
             if text = PNone then Inl (ValueError ''Provided data is invalid!'')
             else Inr (PDict [(lit ''sender_id'', sender_id),
                              (lit ''text'', text),
                              (lit ''metadata'', PDict [])]))"
  using assms(4) get_value_path [OF assms(1,2,3)]
  by (simp add: get_message_from_whatsapp_hook_def)

text \<open>What the function returns, when it returns: never \<^verbatim>\<open>None\<close>.\<close>

lemma py_bind_eq_Inr: "py_bind r f = Inr y \<longleftrightarrow> (\<exists>v. r = Inr v \<and> f v = Inr y)"
  by (cases r) simp_all

lemma hook_result_shape:
  assumes "get_message_from_whatsapp_hook self data = Inr r"
  shows "\<exists>sender_id text. text \<noteq> PNone
           \<and> r = PDict [(lit ''sender_id'', sender_id), (lit ''text'', text),
                        (lit ''metadata'', PDict [])]"
  using assms
  by (auto simp add: get_message_from_whatsapp_hook_def py_bind_eq_Inr split: if_splits prod.splits)

section \<open>Inbound claims\<close>

text \<open>
  C4, as the spec states it, fails where the extracted text is JSON \<^verbatim>\<open>null\<close>: the
  path exists, the message has a \<^verbatim>\<open>from\<close> and a \<^verbatim>\<open>text.body\<close>, and the call
  raises \<^verbatim>\<open>ValueError\<close> instead of returning a message whose text is
  \<^verbatim>\<open>None\<close>.
\<close>

theorem hook_null_body:
  "get_message_from_whatsapp_hook example_converter
     (hook_data [PDict [(lit ''from'', PStr (lit ''123'')),
                        (lit ''type'', PStr (lit ''text'')),
                        (lit ''text'', PDict [(lit ''body'', PNone)])]]) =
     Inl (ValueError ''Provided data is invalid!'')
   \<and> get_message_from_whatsapp_hook example_converter
     (hook_data [PDict [(lit ''from'', PStr (lit ''123'')),
                        (lit ''type'', PStr (lit ''text'')),
                        (lit ''text'', PDict [(lit ''body'', PNone)])]]) \<noteq>
     Inr (PDict [(lit ''sender_id'', PStr (lit ''123'')),
                 (lit ''text'', PNone),
                 (lit ''metadata'', PDict [])])"
  by (simp add: hook_data_defs get_message_from_whatsapp_hook_def get_value_def
        missing_or_empty_def hook_try_body_def except_KeyError_def seq_index_def)

text \<open>
  C4, amended. When \<^verbatim>\<open>entry[0].changes[0].value.messages[0]\<close> exists and is a dict
  with a field \<^verbatim>\<open>from\<close>, and \<open>t\<close> is \<^verbatim>\<open>text.body\<close> of a message of type
  \<^verbatim>\<open>text\<close>, or \<^verbatim>\<open>interactive.button_reply.id\<close> of an interactive message of
  type \<^verbatim>\<open>button_reply\<close>, or \<^verbatim>\<open>interactive.list_reply.id\<close> of an interactive
  message of type \<^verbatim>\<open>list_reply\<close>, the call returns
  \<^verbatim>\<open>{sender_id: from, text: t, metadata: {}}\<close> if \<open>t\<close> is not \<^verbatim>\<open>None\<close>, and
  raises \<^verbatim>\<open>ValueError("Provided data is invalid!")\<close> if it is.
\<close>

theorem hook_message_text:
  assumes "map_of d (lit ''entry'') = Some (PList (PDict e # es))"
    and "map_of e (lit ''changes'') = Some (PList (PDict c # cs))"
    and "map_of c (lit ''value'') = Some (PDict v)"
    and "map_of v (lit ''messages'') = Some (PList (PDict m # ms))"
    and "map_of m (lit ''from'') = Some sender"
    and "(map_of m (lit ''type'') = Some (PStr (lit ''text''))
          \<and> (\<exists>tx. map_of m (lit ''text'') = Some (PDict tx)
                 \<and> map_of tx (lit ''body'') = Some t))
       \<or> (map_of m (lit ''type'') = Some (PStr (lit ''interactive''))
          \<and> (\<exists>i r. map_of m (lit ''interactive'') = Some (PDict i)
                 \<and> map_of i (lit ''type'') = Some (PStr (lit ''button_reply''))
                 \<and> map_of i (lit ''button_reply'') = Some (PDict r)
                 \<and> map_of r (lit ''id'') = Some t))
       \<or> (map_of m (lit ''type'') = Some (PStr (lit ''interactive''))
          \<and> (\<exists>i r. map_of m (lit ''interactive'') = Some (PDict i)
                 \<and> map_of i (lit ''type'') = Some (PStr (lit ''list_reply''))
                 \<and> map_of i (lit ''list_reply'') = Some (PDict r)
                 \<and> map_of r (lit ''id'') = Some t))"
  shows "get_message_from_whatsapp_hook self (PDict d) =
           (if t = PNone then Inl (ValueError ''Provided data is invalid!'')
            else Inr (PDict [(lit ''sender_id'', sender),
                             (lit ''text'', t),
                             (lit ''metadata'', PDict [])]))"
proof -
  have "hook_try_body (PDict m) = Inr (sender, t)"
    using assms(5,6)
    by (auto simp add: hook_try_body_def is_interactive_def)
  then show ?thesis
    using hook_first_message [OF assms(1,2,3,4), of self]
    by (simp add: except_KeyError_def)
qed

theorem hook_message_text_witness:
  "get_message_from_whatsapp_hook example_converter
     (hook_data [PDict [(lit ''from'', PStr (lit ''123'')),
                        (lit ''type'', PStr (lit ''text'')),
                        (lit ''text'', PDict [(lit ''body'', PStr (lit ''hi''))])]]) =
     Inr (PDict [(lit ''sender_id'', PStr (lit ''123'')),
                 (lit ''text'', PStr (lit ''hi'')),
                 (lit ''metadata'', PDict [])])
   \<and> get_message_from_whatsapp_hook example_converter
     (hook_data [PDict [(lit ''from'', PStr (lit ''123'')),
                        (lit ''type'', PStr (lit ''interactive'')),
                        (lit ''interactive'', PDict
                           [(lit ''type'', PStr (lit ''button_reply'')),
                            (lit ''button_reply'', PDict
                               [(lit ''id'', PStr (lit ''OPT_A'')),
                                (lit ''title'', PStr (lit ''Yes''))])])]]) =
     Inr (PDict [(lit ''sender_id'', PStr (lit ''123'')),
                 (lit ''text'', PStr (lit ''OPT_A'')),
                 (lit ''metadata'', PDict [])])
   \<and> get_message_from_whatsapp_hook example_converter
     (hook_data [PDict [(lit ''from'', PStr (lit ''123'')),
                        (lit ''type'', PStr (lit ''interactive'')),
                        (lit ''interactive'', PDict
                           [(lit ''type'', PStr (lit ''list_reply'')),
                            (lit ''list_reply'', PDict
                               [(lit ''id'', PStr (lit ''OPT_B'')),
                                (lit ''title'', PStr (lit ''No''))])])]]) =
     Inr (PDict [(lit ''sender_id'', PStr (lit ''123'')),
                 (lit ''text'', PStr (lit ''OPT_B'')),
                 (lit ''metadata'', PDict [])])"
proof -
  let ?m1 = "[(lit ''from'', PStr (lit ''123'')),
              (lit ''type'', PStr (lit ''text'')),
              (lit ''text'', PDict [(lit ''body'', PStr (lit ''hi''))])]"
  let ?m2 = "[(lit ''from'', PStr (lit ''123'')),
              (lit ''type'', PStr (lit ''interactive'')),
              (lit ''interactive'', PDict
                 [(lit ''type'', PStr (lit ''button_reply'')),
                  (lit ''button_reply'', PDict
                     [(lit ''id'', PStr (lit ''OPT_A'')),
                      (lit ''title'', PStr (lit ''Yes''))])])]"
  let ?m3 = "[(lit ''from'', PStr (lit ''123'')),
              (lit ''type'', PStr (lit ''interactive'')),
              (lit ''interactive'', PDict
                 [(lit ''type'', PStr (lit ''list_reply'')),
                  (lit ''list_reply'', PDict
                     [(lit ''id'', PStr (lit ''OPT_B'')),
                      (lit ''title'', PStr (lit ''No''))])])]"
  show ?thesis
    using
      hook_message_text [where self = example_converter
        and d = "hook_data_fields [PDict ?m1]" and e = "hook_entry_fields [PDict ?m1]"
        and es = "[]" and c = "hook_change_fields [PDict ?m1]" and cs = "[]"
        and v = "hook_value_fields [PDict ?m1]" and m = ?m1 and ms = "[]"
        and sender = "PStr (lit ''123'')" and t = "PStr (lit ''hi'')"]
      hook_message_text [where self = example_converter
        and d = "hook_data_fields [PDict ?m2]" and e = "hook_entry_fields [PDict ?m2]"
        and es = "[]" and c = "hook_change_fields [PDict ?m2]" and cs = "[]"
        and v = "hook_value_fields [PDict ?m2]" and m = ?m2 and ms = "[]"
        and sender = "PStr (lit ''123'')" and t = "PStr (lit ''OPT_A'')"]
      hook_message_text [where self = example_converter
        and d = "hook_data_fields [PDict ?m3]" and e = "hook_entry_fields [PDict ?m3]"
        and es = "[]" and c = "hook_change_fields [PDict ?m3]" and cs = "[]"
        and v = "hook_value_fields [PDict ?m3]" and m = ?m3 and ms = "[]"
        and sender = "PStr (lit ''123'')" and t = "PStr (lit ''OPT_B'')"]
    by (simp add: hook_data_defs)
qed

text \<open>
  C5, as the spec states it, fails on the description: with an empty \<^verbatim>\<open>entry\<close>
  array the call raises \<^verbatim>\<open>ValueError("Provided data is invalid!")\<close>, not an error
  described as \<^verbatim>\<open>invalid: missing entry\<close>.
\<close>

theorem hook_empty_entry_message:
  "get_message_from_whatsapp_hook example_converter
     (PDict [(lit ''object'', PStr (lit ''whatsapp_business_account'')),
             (lit ''entry'', PList [])]) =
     Inl (ValueError ''Provided data is invalid!'')
   \<and> get_message_from_whatsapp_hook example_converter
     (PDict [(lit ''object'', PStr (lit ''whatsapp_business_account'')),
             (lit ''entry'', PList [])]) \<noteq>
     Inl (ValueError ''invalid: missing entry'')"
  by (simp add: get_message_from_whatsapp_hook_def get_value_def missing_or_empty_def)

text \<open>
  C5, amended. For hook data that is a dict: when \<^verbatim>\<open>entry\<close> is absent or empty,
  when \<^verbatim>\<open>changes\<close> is absent from the dict \<^verbatim>\<open>entry[0]\<close> or empty, or when
  \<^verbatim>\<open>value\<close> is absent from the dict \<^verbatim>\<open>changes[0]\<close>, the call raises
  \<^verbatim>\<open>ValueError("Provided data is invalid!")\<close>; when \<^verbatim>\<open>messages\<close> is absent
  from the dict \<^verbatim>\<open>value\<close> or empty, it raises
  \<^verbatim>\<open>ValueError("Provided value is invalid")\<close>. The message does not name the
  missing segment.
\<close>

theorem hook_missing_segment:
  "((map_of d (lit ''entry'') = None
      \<or> (\<exists>x. map_of d (lit ''entry'') = Some x \<and> py_len x = Inr 0))
     \<longrightarrow> get_message_from_whatsapp_hook self (PDict d) =
           Inl (ValueError ''Provided data is invalid!''))
   \<and> ((map_of d (lit ''entry'') = Some (PList (PDict e # es))
       \<and> (map_of e (lit ''changes'') = None
          \<or> (\<exists>x. map_of e (lit ''changes'') = Some x \<and> py_len x = Inr 0)))
     \<longrightarrow> get_message_from_whatsapp_hook self (PDict d) =
           Inl (ValueError ''Provided data is invalid!''))
   \<and> ((map_of d (lit ''entry'') = Some (PList (PDict e # es))
       \<and> map_of e (lit ''changes'') = Some (PList (PDict c # cs))
       \<and> map_of c (lit ''value'') = None)
     \<longrightarrow> get_message_from_whatsapp_hook self (PDict d) =
           Inl (ValueError ''Provided data is invalid!''))
   \<and> ((map_of d (lit ''entry'') = Some (PList (PDict e # es))
       \<and> map_of e (lit ''changes'') = Some (PList (PDict c # cs))
       \<and> map_of c (lit ''value'') = Some (PDict v)
       \<and> (map_of v (lit ''messages'') = None
          \<or> (\<exists>x. map_of v (lit ''messages'') = Some x \<and> py_len x = Inr 0)))
     \<longrightarrow> get_message_from_whatsapp_hook self (PDict d) =
           Inl (ValueError ''Provided value is invalid''))"
proof (intro conjI impI)
  assume "map_of d (lit ''entry'') = None
      \<or> (\<exists>x. map_of d (lit ''entry'') = Some x \<and> py_len x = Inr 0)"
  then show "get_message_from_whatsapp_hook self (PDict d) =
           Inl (ValueError ''Provided data is invalid!'')"
    by (auto simp add: get_message_from_whatsapp_hook_def get_value_def)
next
  assume "map_of d (lit ''entry'') = Some (PList (PDict e # es))
       \<and> (map_of e (lit ''changes'') = None
          \<or> (\<exists>x. map_of e (lit ''changes'') = Some x \<and> py_len x = Inr 0))"
  then show "get_message_from_whatsapp_hook self (PDict d) =
           Inl (ValueError ''Provided data is invalid!'')"
    by (auto simp add: get_message_from_whatsapp_hook_def get_value_def)
next
  assume "map_of d (lit ''entry'') = Some (PList (PDict e # es))
       \<and> map_of e (lit ''changes'') = Some (PList (PDict c # cs))
       \<and> map_of c (lit ''value'') = None"
  then show "get_message_from_whatsapp_hook self (PDict d) =
           Inl (ValueError ''Provided data is invalid!'')"
    by (auto simp add: get_message_from_whatsapp_hook_def get_value_def)
next
  assume a: "map_of d (lit ''entry'') = Some (PList (PDict e # es))
       \<and> map_of e (lit ''changes'') = Some (PList (PDict c # cs))
       \<and> map_of c (lit ''value'') = Some (PDict v)
       \<and> (map_of v (lit ''messages'') = None
          \<or> (\<exists>x. map_of v (lit ''messages'') = Some x \<and> py_len x = Inr 0))"
  then have "get_value self (PDict d) = Inr (PDict v)"
    by (simp add: get_value_path)
  with a show "get_message_from_whatsapp_hook self (PDict d) =
           Inl (ValueError ''Provided value is invalid'')"
    by (auto simp add: get_message_from_whatsapp_hook_def)
qed

theorem hook_missing_segment_witness:
  "get_message_from_whatsapp_hook example_converter (PDict []) =
     Inl (ValueError ''Provided data is invalid!'')
   \<and> get_message_from_whatsapp_hook example_converter (PDict [(lit ''entry'', PList [])]) =
     Inl (ValueError ''Provided data is invalid!'')
   \<and> get_message_from_whatsapp_hook example_converter
       (PDict [(lit ''entry'', PList [PDict [(lit ''id'', PStr (lit ''1''))]])]) =
     Inl (ValueError ''Provided data is invalid!'')
   \<and> get_message_from_whatsapp_hook example_converter
       (PDict [(lit ''entry'', PList [PDict [(lit ''changes'', PList [])]])]) =
     Inl (ValueError ''Provided data is invalid!'')
   \<and> get_message_from_whatsapp_hook example_converter
       (PDict [(lit ''entry'', PList [PDict [(lit ''changes'', PList
          [PDict [(lit ''field'', PStr (lit ''messages''))]])]])]) =
     Inl (ValueError ''Provided data is invalid!'')
   \<and> get_message_from_whatsapp_hook example_converter
       (PDict [(lit ''entry'', PList [PDict [(lit ''changes'', PList
          [PDict [(lit ''value'', PDict [(lit ''statuses'', PList [])])]])]])]) =
     Inl (ValueError ''Provided value is invalid'')
   \<and> get_message_from_whatsapp_hook example_converter (hook_data []) =
     Inl (ValueError ''Provided value is invalid'')"
  using
    hook_missing_segment [where self = example_converter and d = "[]"]
    hook_missing_segment [where self = example_converter and d = "[(lit ''entry'', PList [])]"]
    hook_missing_segment [where self = example_converter
      and d = "[(lit ''entry'', PList [PDict [(lit ''id'', PStr (lit ''1''))]])]"
      and e = "[(lit ''id'', PStr (lit ''1''))]" and es = "[]"]
    hook_missing_segment [where self = example_converter
      and d = "[(lit ''entry'', PList [PDict [(lit ''changes'', PList [])]])]"
      and e = "[(lit ''changes'', PList [])]" and es = "[]"]
    hook_missing_segment [where self = example_converter
      and d = "[(lit ''entry'', PList [PDict [(lit ''changes'', PList
          [PDict [(lit ''field'', PStr (lit ''messages''))]])]])]"
      and e = "[(lit ''changes'', PList [PDict [(lit ''field'', PStr (lit ''messages''))]])]"
      and es = "[]" and c = "[(lit ''field'', PStr (lit ''messages''))]" and cs = "[]"]
    hook_missing_segment [where self = example_converter
      and d = "[(lit ''entry'', PList [PDict [(lit ''changes'', PList
          [PDict [(lit ''value'', PDict [(lit ''statuses'', PList [])])]])]])]"
      and e = "[(lit ''changes'', PList
          [PDict [(lit ''value'', PDict [(lit ''statuses'', PList [])])]])]"
      and es = "[]" and c = "[(lit ''value'', PDict [(lit ''statuses'', PList [])])]"
      and cs = "[]" and v = "[(lit ''statuses'', PList [])]"]
    hook_missing_segment [where self = example_converter
      and d = "hook_data_fields []" and e = "hook_entry_fields []" and es = "[]"
      and c = "hook_change_fields []" and cs = "[]" and v = "hook_value_fields []"]
  by (simp add: hook_data_defs)

text \<open>
  C6, as the spec states it, fails on the description: an interactive message whose
  \<^verbatim>\<open>interactive.type\<close> is neither \<^verbatim>\<open>button_reply\<close> nor
  \<^verbatim>\<open>list_reply\<close> raises \<^verbatim>\<open>ValueError("Provided data is invalid!")\<close>, not an
  error described as \<^verbatim>\<open>invalid data\<close>.
\<close>

theorem hook_unknown_interactive_message:
  "get_message_from_whatsapp_hook example_converter
     (hook_data [PDict [(lit ''from'', PStr (lit ''123'')),
                        (lit ''type'', PStr (lit ''interactive'')),
                        (lit ''interactive'', PDict
                           [(lit ''type'', PStr (lit ''nfm_reply'')),
                            (lit ''nfm_reply'', PDict [(lit ''name'', PStr (lit ''flow''))])])]]) =
     Inl (ValueError ''Provided data is invalid!'')
   \<and> get_message_from_whatsapp_hook example_converter
     (hook_data [PDict [(lit ''from'', PStr (lit ''123'')),
                        (lit ''type'', PStr (lit ''interactive'')),
                        (lit ''interactive'', PDict
                           [(lit ''type'', PStr (lit ''nfm_reply'')),
                            (lit ''nfm_reply'', PDict [(lit ''name'', PStr (lit ''flow''))])])]]) \<noteq>
     Inl (ValueError ''invalid data'')"
  by (simp add: hook_data_defs get_message_from_whatsapp_hook_def get_value_def
        missing_or_empty_def hook_try_body_def is_interactive_def except_KeyError_def seq_index_def)

text \<open>
  C6, amended. When \<^verbatim>\<open>messages[0]\<close> is a dict reached along the path and its shape
  is none of the three recognised ones, the call raises
  \<^verbatim>\<open>ValueError("Provided data is invalid!")\<close> and returns nothing. The shapes
  covered: no \<^verbatim>\<open>type\<close>; a type other than \<^verbatim>\<open>text\<close> and
  \<^verbatim>\<open>interactive\<close>; type \<^verbatim>\<open>text\<close> with no \<^verbatim>\<open>text\<close> field, or with a
  \<^verbatim>\<open>text\<close> dict that has no \<^verbatim>\<open>body\<close>; type \<^verbatim>\<open>interactive\<close> with no
  \<^verbatim>\<open>interactive\<close> field, or with an \<^verbatim>\<open>interactive\<close> dict that has no
  \<^verbatim>\<open>type\<close> or a type that is neither \<^verbatim>\<open>button_reply\<close> nor
  \<^verbatim>\<open>list_reply\<close>.
\<close>

theorem hook_unrecognised:
  assumes "map_of d (lit ''entry'') = Some (PList (PDict e # es))"
    and "map_of e (lit ''changes'') = Some (PList (PDict c # cs))"
    and "map_of c (lit ''value'') = Some (PDict v)"
    and "map_of v (lit ''messages'') = Some (PList (PDict m # ms))"
    and "map_of m (lit ''type'') = None
       \<or> (\<exists>ty. map_of m (lit ''type'') = Some ty
              \<and> ty \<noteq> PStr (lit ''text'') \<and> ty \<noteq> PStr (lit ''interactive''))
       \<or> (map_of m (lit ''type'') = Some (PStr (lit ''text''))
          \<and> (map_of m (lit ''text'') = None
             \<or> (\<exists>tx. map_of m (lit ''text'') = Some (PDict tx)
                    \<and> map_of tx (lit ''body'') = None)))
       \<or> (map_of m (lit ''type'') = Some (PStr (lit ''interactive''))
          \<and> (map_of m (lit ''interactive'') = None
             \<or> (\<exists>i. map_of m (lit ''interactive'') = Some (PDict i)
                   \<and> (map_of i (lit ''type'') = None
                      \<or> (\<exists>it. map_of i (lit ''type'') = Some it
                             \<and> it \<noteq> PStr (lit ''button_reply'')
                             \<and> it \<noteq> PStr (lit ''list_reply''))))))"
  shows "get_message_from_whatsapp_hook self (PDict d) =
           Inl (ValueError ''Provided data is invalid!'')"
proof -
  have "(\<exists>s. hook_try_body (PDict m) = Inr (s, PNone)) \<or> hook_try_body (PDict m) = Inl KeyError"
    using assms(5)
    by (cases "map_of m (lit ''from'')")
       (auto simp add: hook_try_body_def is_interactive_def)
  then show ?thesis
    using hook_first_message [OF assms(1,2,3,4), of self]
    by (auto simp add: except_KeyError_def)
qed

theorem hook_unrecognised_witness:
  "get_message_from_whatsapp_hook example_converter
     (hook_data [PDict [(lit ''from'', PStr (lit ''123'')),
                        (lit ''type'', PStr (lit ''interactive'')),
                        (lit ''interactive'', PDict
                           [(lit ''type'', PStr (lit ''nfm_reply'')),
                            (lit ''nfm_reply'', PDict [(lit ''name'', PStr (lit ''flow''))])])]]) =
     Inl (ValueError ''Provided data is invalid!'')
   \<and> get_message_from_whatsapp_hook example_converter
     (hook_data [PDict [(lit ''from'', PStr (lit ''123'')),
                        (lit ''type'', PStr (lit ''image'')),
                        (lit ''image'', PDict [(lit ''id'', PStr (lit ''77''))])]]) =
     Inl (ValueError ''Provided data is invalid!'')"
proof -
  let ?m1 = "[(lit ''from'', PStr (lit ''123'')),
              (lit ''type'', PStr (lit ''interactive'')),
              (lit ''interactive'', PDict
                 [(lit ''type'', PStr (lit ''nfm_reply'')),
                  (lit ''nfm_reply'', PDict [(lit ''name'', PStr (lit ''flow''))])])]"
  let ?m2 = "[(lit ''from'', PStr (lit ''123'')),
              (lit ''type'', PStr (lit ''image'')),
              (lit ''image'', PDict [(lit ''id'', PStr (lit ''77''))])]"
  show ?thesis
    using
      hook_unrecognised [where self = example_converter
        and d = "hook_data_fields [PDict ?m1]" and e = "hook_entry_fields [PDict ?m1]"
        and es = "[]" and c = "hook_change_fields [PDict ?m1]" and cs = "[]"
        and v = "hook_value_fields [PDict ?m1]" and m = ?m1 and ms = "[]"]
      hook_unrecognised [where self = example_converter
        and d = "hook_data_fields [PDict ?m2]" and e = "hook_entry_fields [PDict ?m2]"
        and es = "[]" and c = "hook_change_fields [PDict ?m2]" and cs = "[]"
        and v = "hook_value_fields [PDict ?m2]" and m = ?m2 and ms = "[]"]
    by (simp add: hook_data_defs)
qed

text \<open>
  C9. The function does not always return a message or raise \<^verbatim>\<open>ValueError\<close>.
  Only \<^verbatim>\<open>KeyError\<close> is caught, and only inside the \<^verbatim>\<open>try\<close> block: a
  \<^verbatim>\<open>text\<close> field that is a string, or a message that is a string, raises
  \<^verbatim>\<open>TypeError\<close>, and an \<^verbatim>\<open>entry\<close> that is a non-empty dict raises
  \<^verbatim>\<open>KeyError\<close> at \<^verbatim>\<open>data["entry"][0]\<close>.
\<close>

theorem hook_type_error_escapes:
  "get_message_from_whatsapp_hook example_converter
     (hook_data [PDict [(lit ''from'', PStr (lit ''123'')),
                        (lit ''type'', PStr (lit ''text'')),
                        (lit ''text'', PStr (lit ''hi''))]]) = Inl TypeError
   \<and> get_message_from_whatsapp_hook example_converter
     (hook_data [PStr (lit ''hi'')]) = Inl TypeError
   \<and> get_message_from_whatsapp_hook example_converter
     (PDict [(lit ''entry'', PDict [(lit ''0'', PDict [])])]) = Inl KeyError"
  by (simp add: hook_data_defs get_message_from_whatsapp_hook_def get_value_def
        missing_or_empty_def hook_try_body_def is_interactive_def except_KeyError_def seq_index_def)

text \<open>
  C10. Two hook data dicts that agree on \<^verbatim>\<open>entry[0].changes[0].value.messages[0]\<close>,
  with the three lists non-empty in both, give the same outcome, the same message or the
  same exception, whatever their other fields and later list items are, and whatever
  converter the function is called on.
\<close>

theorem hook_depends_on_first_message:
  assumes "map_of d (lit ''entry'') = Some (PList (PDict e # es))"
    and "map_of e (lit ''changes'') = Some (PList (PDict c # cs))"
    and "map_of c (lit ''value'') = Some (PDict v)"
    and "map_of v (lit ''messages'') = Some (PList (m # ms))"
    and "map_of d' (lit ''entry'') = Some (PList (PDict e' # es'))"
    and "map_of e' (lit ''changes'') = Some (PList (PDict c' # cs'))"
    and "map_of c' (lit ''value'') = Some (PDict v')"
    and "map_of v' (lit ''messages'') = Some (PList (m # ms'))"
  shows "get_message_from_whatsapp_hook self (PDict d) =
         get_message_from_whatsapp_hook self' (PDict d')"
  by (simp add: hook_first_message [OF assms(1,2,3,4)] hook_first_message [OF assms(5,6,7,8)])

theorem hook_depends_on_first_message_witness:
  "get_message_from_whatsapp_hook example_converter
     (hook_data [PDict [(lit ''from'', PStr (lit ''123'')),
                        (lit ''type'', PStr (lit ''text'')),
                        (lit ''text'', PDict [(lit ''body'', PStr (lit ''hi''))])],
                 PDict [(lit ''from'', PStr (lit ''456''))]]) =
   get_message_from_whatsapp_hook (init_converter (lit ''/42'') (lit ''other''))
     (PDict [(lit ''entry'', PList
        [PDict [(lit ''changes'', PList
            [PDict [(lit ''value'', PDict [(lit ''messages'', PList
               [PDict [(lit ''from'', PStr (lit ''123'')),
                       (lit ''type'', PStr (lit ''text'')),
                       (lit ''text'', PDict [(lit ''body'', PStr (lit ''hi''))])]])])],
             PNone])],
         PInt 7])])"
proof -
  let ?m = "PDict [(lit ''from'', PStr (lit ''123'')),
                   (lit ''type'', PStr (lit ''text'')),
                   (lit ''text'', PDict [(lit ''body'', PStr (lit ''hi''))])]"
  let ?o = "PDict [(lit ''from'', PStr (lit ''456''))]"
  let ?v = "[(lit ''messages'', PList [?m])]"
  let ?c = "[(lit ''value'', PDict ?v)]"
  let ?e = "[(lit ''changes'', PList [PDict ?c, PNone])]"
  let ?d = "[(lit ''entry'', PList [PDict ?e, PInt 7])]"
  show ?thesis
    using
      hook_depends_on_first_message [where self = example_converter
        and self' = "init_converter (lit ''/42'') (lit ''other'')"
        and d = "hook_data_fields [?m, ?o]" and e = "hook_entry_fields [?m, ?o]"
        and es = "[]" and c = "hook_change_fields [?m, ?o]" and cs = "[]"
        and v = "hook_value_fields [?m, ?o]" and m = ?m and ms = "[?o]"
        and d' = ?d and e' = ?e and es' = "[PInt 7]" and c' = ?c and cs' = "[PNone]"
        and v' = ?v and ms' = "[]"]
    by (simp add: hook_data_defs)
qed

end
